theory Spec2Isabelle
  imports Complex_Main "HOL-Library.Word"
begin

unbundle bit_operations_syntax

section \<open>Python values, exceptions and effects\<close>

text \<open>
  JSON-like values that travel between the service, the document store and the trading
  SDK. A Python \<open>dict\<close> with string keys is an association list (\<open>doc\<close>); floats are
  only ever passed through, never computed with, so they are carried as reals.
  A Python \<open>str\<close> is a HOL \<open>string\<close> holding its UTF-8 bytes.
\<close>

datatype pyval =
    PNone
  | PBool bool
  | PInt int
  | PFloat real
  | PStr string
  | PList "pyval list"
  | PDict "(string \<times> pyval) list"

type_synonym doc = "(string \<times> pyval) list"

text \<open>
  Exceptions, by class, each with the text that \<open>str(e)\<close> gives: the message the
  exception was constructed with and, for a \<open>KeyError\<close>, the \<open>repr\<close> of the missing
  key. An \<open>HTTPException\<close> has its status code and its detail.
\<close>

datatype exn =
    Exception string
  | KeyError string
  | TypeError string
  | ValueError string
  | OverflowError string
  | AttributeError string
  | IndexError string
  | ImportError string
  | UnicodeError string
  | BinasciiError string
  | InvalidTag
  | RequestException string
  | ValidationError string
  | HTTPException nat string

text \<open>Decimal rendering of a status code, for \<open>str(e)\<close> of an \<open>HTTPException\<close>.\<close>

definition digit_char :: "nat \<Rightarrow> char" where
  "digit_char d = char_of (48 + d)"

function dec :: "nat \<Rightarrow> string" where
  "dec n = (if n < 10 then [digit_char n] else dec (n div 10) @ [digit_char (n mod 10)])"
  by pat_completeness auto
termination
  by (relation "measure id") auto

declare dec.simps [simp del]

text \<open>
  \<open>str(e)\<close>: the text the exception carries, and \<open>"<status>: <detail>"\<close> for an
  \<open>HTTPException\<close>.
\<close>

fun str_exn :: "exn \<Rightarrow> string" where
  "str_exn (Exception m) = m"
| "str_exn (KeyError r) = r"
| "str_exn (TypeError m) = m"
| "str_exn (ValueError m) = m"
| "str_exn (OverflowError m) = m"
| "str_exn (AttributeError m) = m"
| "str_exn (IndexError m) = m"
| "str_exn (ImportError m) = m"
| "str_exn (UnicodeError m) = m"
| "str_exn (BinasciiError m) = m"
| "str_exn InvalidTag = []"
| "str_exn (RequestException m) = m"
| "str_exn (ValidationError m) = m"
| "str_exn (HTTPException c d) = dec c @ '': '' @ d"

text \<open>
  An effectful computation over a state \<open>'s\<close>: it ends with an exception (\<open>Inl\<close>) or a
  value (\<open>Inr\<close>) and the state reached. State changes made before an exception stay,
  as in Python.
\<close>

type_synonym ('s, 'a) prog = "'s \<Rightarrow> (exn + 'a) \<times> 's"

definition ret :: "'a \<Rightarrow> ('s, 'a) prog" where
  "ret x = (\<lambda>s. (Inr x, s))"

definition throw :: "exn \<Rightarrow> ('s, 'a) prog" where
  "throw e = (\<lambda>s. (Inl e, s))"

definition lift :: "exn + 'a \<Rightarrow> ('s, 'a) prog" where
  "lift r = (\<lambda>s. (r, s))"

definition pbind :: "('s, 'a) prog \<Rightarrow> ('a \<Rightarrow> ('s, 'b) prog) \<Rightarrow> ('s, 'b) prog" where
  "pbind m f = (\<lambda>s. case m s of (Inl e, s') \<Rightarrow> (Inl e, s') | (Inr x, s') \<Rightarrow> f x s')"

definition try_except :: "('s, 'a) prog \<Rightarrow> (exn \<Rightarrow> ('s, 'a) prog) \<Rightarrow> ('s, 'a) prog" where
  "try_except m h = (\<lambda>s. case m s of (Inl e, s') \<Rightarrow> h e s' | (Inr x, s') \<Rightarrow> (Inr x, s'))"

subsection \<open>Dictionary access, truthiness, formatting\<close>

text \<open>
  \<open>repr\<close> of a \<open>str\<close>: single quotes, or double quotes when the text has a single quote
  and no double quote; the quote character and the backslash are escaped with a backslash,
  tab, newline and carriage return are written as backslash and \<open>t\<close>, \<open>n\<close>, \<open>r\<close>, and
  the other ASCII control characters as backslash, \<open>x\<close> and two hexadecimal digits. Characters outside ASCII are kept as they are, which is
  what \<open>repr\<close> does with the printable ones.
\<close>

definition hex_digit :: "nat \<Rightarrow> char" where
  "hex_digit d = (if d < 10 then char_of (48 + d) else char_of (87 + d))"

definition repr_char :: "char \<Rightarrow> char \<Rightarrow> string" where
  "repr_char quote c = (let n = (of_char c :: nat) in
     if c = quote \<or> n = 92 then [CHR 0x5C, c]
     else if n = 9 then [CHR 0x5C, CHR ''t'']
     else if n = 10 then [CHR 0x5C, CHR ''n'']
     else if n = 13 then [CHR 0x5C, CHR ''r'']
     else if n < 32 \<or> n = 127 then [CHR 0x5C, CHR ''x'', hex_digit (n div 16), hex_digit (n mod 16)]
     else [c])"

definition repr_str :: "string \<Rightarrow> string" where
  "repr_str s =
     (let quote = (if CHR 0x27 \<in> set s \<and> CHR 0x22 \<notin> set s then CHR 0x22 else CHR 0x27)
      in [quote] @ concat (map (repr_char quote) s) @ [quote])"

text \<open>\<open>d[k]\<close> on a dictionary: the value, or \<open>KeyError(k)\<close>.\<close>

definition getitem :: "doc \<Rightarrow> string \<Rightarrow> exn + pyval" where
  "getitem d k = (case map_of d k of None \<Rightarrow> Inl (KeyError (repr_str k)) | Some v \<Rightarrow> Inr v)"

definition get_default :: "doc \<Rightarrow> string \<Rightarrow> pyval \<Rightarrow> pyval" where
  "get_default d k dflt = (case map_of d k of None \<Rightarrow> dflt | Some v \<Rightarrow> v)"

text \<open>
  \<open>f"{v:.2f}"\<close>, of which only success or failure matters (the text is printed).
  A \<open>float\<close> and a \<open>bool\<close> format; an \<open>int\<close> is converted to \<open>float\<close> first, which
  overflows from \<open>float_overflow\<close> on (the first integer that rounds to \<open>2 ^ 1024\<close>);
  anything else raises.
\<close>

definition float_overflow :: int where
  "float_overflow = 2 ^ 1024 - 2 ^ 970"

fun format_2f :: "pyval \<Rightarrow> exn + unit" where
  "format_2f (PInt i) =
     (if float_overflow \<le> \<bar>i\<bar> then Inl (OverflowError ''int too large to convert to float'')
      else Inr ())"
| "format_2f (PFloat r) = Inr ()"
| "format_2f (PBool b) = Inr ()"
| "format_2f (PStr s) =
     Inl (ValueError (''Unknown format code '' @ repr_str ''f'' @ '' for object of type '' @ repr_str ''str''))"
| "format_2f PNone = Inl (TypeError ''unsupported format string passed to NoneType.__format__'')"
| "format_2f (PList l) = Inl (TypeError ''unsupported format string passed to list.__format__'')"
| "format_2f (PDict d) = Inl (TypeError ''unsupported format string passed to dict.__format__'')"

text \<open>ASCII case mapping of \<open>str.lower\<close> and \<open>str.upper\<close>; other bytes are kept.\<close>

definition lower_char :: "char \<Rightarrow> char" where
  "lower_char c = (let n = (of_char c :: nat) in if 65 \<le> n \<and> n \<le> 90 then char_of (n + 32) else c)"

definition upper_char :: "char \<Rightarrow> char" where
  "upper_char c = (let n = (of_char c :: nat) in if 97 \<le> n \<and> n \<le> 122 then char_of (n - 32) else c)"

definition lower :: "string \<Rightarrow> string" where
  "lower s = map lower_char s"


section \<open>Credential cipher (encryption.py)\<close>

subsection \<open>Bytes and UTF-8\<close>

text \<open>
  \<open>bytes\<close> are lists of 8-bit words. A \<open>str\<close> is held as its UTF-8 bytes, so
  \<open>str.encode()\<close> keeps the bytes and \<open>bytes.decode('utf-8')\<close> checks them:
  \<open>utf8_valid\<close> accepts exactly the well-formed byte sequences (no overlong forms, no
  surrogates, nothing above U+10FFFF). A \<open>string\<close> that is not well-formed stands for a
  \<open>str\<close> with a lone surrogate, which \<open>encode\<close> rejects.
\<close>

type_synonym byte = "8 word"
type_synonym bytes = "byte list"

definition byte_of_char :: "char \<Rightarrow> byte" where
  "byte_of_char c = of_nat (of_char c)"

definition char_of_byte :: "byte \<Rightarrow> char" where
  "char_of_byte b = char_of (unat b)"

definition continuation :: "byte \<Rightarrow> bool" where
  "continuation b = (0x80 \<le> b \<and> b \<le> 0xBF)"

fun utf8_valid :: "bytes \<Rightarrow> bool" where
  "utf8_valid [] = True"
| "utf8_valid (b # bs) =
     (if b < 0x80 then utf8_valid bs
      else if 0xC2 \<le> b \<and> b \<le> 0xDF then
        (case bs of c1 # r \<Rightarrow> continuation c1 \<and> utf8_valid r | _ \<Rightarrow> False)
      else if 0xE0 \<le> b \<and> b \<le> 0xEF then
        (case bs of c1 # c2 # r \<Rightarrow>
           (if b = 0xE0 then 0xA0 \<le> c1 \<and> c1 \<le> 0xBF
            else if b = 0xED then 0x80 \<le> c1 \<and> c1 \<le> 0x9F
            else continuation c1) \<and> continuation c2 \<and> utf8_valid r
         | _ \<Rightarrow> False)
      else if 0xF0 \<le> b \<and> b \<le> 0xF4 then
        (case bs of c1 # c2 # c3 # r \<Rightarrow>
           (if b = 0xF0 then 0x90 \<le> c1 \<and> c1 \<le> 0xBF
            else if b = 0xF4 then 0x80 \<le> c1 \<and> c1 \<le> 0x8F
            else continuation c1) \<and> continuation c2 \<and> continuation c3 \<and> utf8_valid r
         | _ \<Rightarrow> False)
      else False)"

definition encode_utf8 :: "string \<Rightarrow> exn + bytes" where
  "encode_utf8 s =
     (if utf8_valid (map byte_of_char s) then Inr (map byte_of_char s)
      else Inl (UnicodeError ''surrogates not allowed''))"

definition decode_utf8 :: "bytes \<Rightarrow> exn + string" where
  "decode_utf8 bs =
     (if utf8_valid bs then Inr (map char_of_byte bs)
      else Inl (UnicodeError ''invalid utf-8''))"

subsection \<open>Base64 (base64.b64encode, base64.b64decode)\<close>

text \<open>
  The standard alphabet as code-point arithmetic. \<open>b2a_base64\<close> encodes groups of three
  bytes and pads the last group with \<open>=\<close>. \<open>a2b_base64\<close> is the non-strict decoder
  that \<open>b64decode\<close> calls: it scans the characters with the position in the current
  quad, the bits left over and the count of pad characters seen; characters outside
  the alphabet are skipped, a pad sequence that completes a quad ends the scan, and
  leftover characters at the end are an error. \<open>b64decode\<close> first refuses a
  \<open>str\<close> with a non-ASCII character.
\<close>

definition b2a :: "byte \<Rightarrow> char" where
  "b2a v = (let i = unat v in
     if i < 26 then char_of (65 + i)
     else if i < 52 then char_of (71 + i)
     else if i < 62 then char_of (i - 4)
     else if i = 62 then CHR ''+'' else CHR ''/'')"

definition a2b :: "char \<Rightarrow> byte option" where
  "a2b ch = (let n = (of_char ch :: nat) in
     if 65 \<le> n \<and> n \<le> 90 then Some (of_nat (n - 65))
     else if 97 \<le> n \<and> n \<le> 122 then Some (of_nat (n - 71))
     else if 48 \<le> n \<and> n \<le> 57 then Some (of_nat (n + 4))
     else if ch = CHR ''+'' then Some 62
     else if ch = CHR ''/'' then Some 63
     else None)"

fun b2a_base64 :: "bytes \<Rightarrow> string" where
  "b2a_base64 [] = []"
| "b2a_base64 [a] =
     [b2a (drop_bit 2 a), b2a (push_bit 4 (a AND 3)), CHR ''='', CHR ''='']"
| "b2a_base64 [a, b] =
     [b2a (drop_bit 2 a), b2a (push_bit 4 (a AND 3) OR drop_bit 4 b),
      b2a (push_bit 2 (b AND 15)), CHR ''='']"
| "b2a_base64 (a # b # c # rest) =
     [b2a (drop_bit 2 a), b2a (push_bit 4 (a AND 3) OR drop_bit 4 b),
      b2a (push_bit 2 (b AND 15) OR drop_bit 6 c), b2a (c AND 63)] @ b2a_base64 rest"

fun a2b_base64 :: "nat \<Rightarrow> byte \<Rightarrow> nat \<Rightarrow> bytes \<Rightarrow> string \<Rightarrow> exn + bytes" where
  "a2b_base64 quad_pos leftchar pads out [] =
     (if quad_pos = 0 then Inr out
      else if quad_pos = 1 then Inl (BinasciiError ''Invalid base64-encoded string'')
      else Inl (BinasciiError ''Incorrect padding''))"
| "a2b_base64 quad_pos leftchar pads out (ch # rest) =
     (if ch = CHR ''='' then
        (if 2 \<le> quad_pos then
           (if 4 \<le> quad_pos + (pads + 1) then Inr out
            else a2b_base64 quad_pos leftchar (pads + 1) out rest)
         else a2b_base64 quad_pos leftchar pads out rest)
      else
        (case a2b ch of
           None \<Rightarrow> a2b_base64 quad_pos leftchar pads out rest
         | Some v \<Rightarrow>
             (if quad_pos = 0 then a2b_base64 1 v 0 out rest
              else if quad_pos = 1 then
                a2b_base64 2 (v AND 15) 0 (out @ [push_bit 2 leftchar OR drop_bit 4 v]) rest
              else if quad_pos = 2 then
                a2b_base64 3 (v AND 3) 0 (out @ [push_bit 4 leftchar OR drop_bit 2 v]) rest
              else a2b_base64 0 0 0 (out @ [push_bit 6 leftchar OR v]) rest)))"

definition b64encode :: "bytes \<Rightarrow> string" where
  "b64encode s = b2a_base64 s"

definition b64decode :: "string \<Rightarrow> exn + bytes" where
  "b64decode s =
     (if \<exists>c \<in> set s. 128 \<le> (of_char c :: nat)
      then Inl (ValueError ''string argument should contain only ASCII characters'')
      else a2b_base64 0 0 0 [] s)"



subsection \<open>The cryptography library\<close>

text \<open>
  What the module takes from the \<open>cryptography\<close> package. A key derivation class is
  called with algorithm, length, salt and iteration count and gives an object whose
  \<open>derive\<close> maps key material to a key. A cipher under a key is GCM in counter mode:
  the ciphertext is the plaintext XOR a key stream that depends on key and IV, and
  the 16-byte tag is a function of key, IV and ciphertext (no associated data is
  used). AES, GHASH and the key derivation themselves are parameters, and nothing is
  assumed about them.

  \<open>pbkdf2_module\<close> holds the key derivation classes that the module
  \<open>cryptography.hazmat.primitives.kdf.pbkdf2\<close> defines, by name, and \<open>pbkdf2_file\<close>
  the path of that module, which an \<open>ImportError\<close> shows.
\<close>

definition ebind :: "exn + 'a \<Rightarrow> ('a \<Rightarrow> exn + 'b) \<Rightarrow> exn + 'b" where
  "ebind r f = (case r of Inl e \<Rightarrow> Inl e | Inr x \<Rightarrow> f x)"

type_synonym kdf = "bytes \<Rightarrow> exn + bytes"
type_synonym kdf_class = "string \<Rightarrow> nat \<Rightarrow> bytes \<Rightarrow> nat \<Rightarrow> exn + kdf"

record aes_gcm =
  keystream :: "bytes \<Rightarrow> nat \<Rightarrow> byte"
  ghash_tag :: "bytes \<Rightarrow> bytes \<Rightarrow> 128 word"

record cryptography =
  pbkdf2_module :: "(string \<times> kdf_class) list"
  pbkdf2_file :: string
  aes_cipher :: "bytes \<Rightarrow> aes_gcm"

text \<open>
  The package as released: its module \<open>pbkdf2\<close> defines the class \<open>PBKDF2HMAC\<close> and
  no other key derivation class.
\<close>

definition cryptography_release :: "kdf_class \<Rightarrow> string \<Rightarrow> (bytes \<Rightarrow> aes_gcm) \<Rightarrow> cryptography" where
  "cryptography_release pbkdf2_hmac file cipher =
     \<lparr>pbkdf2_module = [(''PBKDF2HMAC'', pbkdf2_hmac)], pbkdf2_file = file, aes_cipher = cipher\<rparr>"

text \<open>\<open>from module import name\<close>: the object bound to the name, or \<open>ImportError\<close>.\<close>

definition import_from :: "string \<Rightarrow> string \<Rightarrow> (string \<times> 'a) list \<Rightarrow> string \<Rightarrow> exn + 'a" where
  "import_from module_name file names name =
     (case map_of names name of
        Some v \<Rightarrow> Inr v
      | None \<Rightarrow> Inl (ImportError (''cannot import name '' @ repr_str name @ '' from '' @
                   repr_str module_name @ '' ('' @ file @ '')'')))"

text \<open>
  \<open>algorithms.AES(key)\<close> checks the key size; \<open>modes.GCM(iv, tag)\<close> checks the
  lengths of IV and tag; \<open>Cipher(algorithm, mode)\<close> refuses a 512-bit key for GCM. The
  decryptor refuses a tag longer than a block, and \<open>finalize\<close> compares the tag.
\<close>

definition algorithms_AES :: "bytes \<Rightarrow> exn + bytes" where
  "algorithms_AES key =
     (if length key \<in> {16, 24, 32, 64} then Inr key
      else Inl (ValueError (''Invalid key size ('' @ dec (length key * 8) @ '') for AES.'')))"

definition tag_bytes :: "128 word \<Rightarrow> bytes" where
  "tag_bytes t = map (\<lambda>i. ucast (drop_bit (8 * (15 - i)) t)) [0..<16]"

definition ctr_xor :: "aes_gcm \<Rightarrow> bytes \<Rightarrow> bytes \<Rightarrow> bytes" where
  "ctr_xor g iv data = map2 (\<lambda>x k. x XOR k) data (map (keystream g iv) [0..<length data])"

definition gcm_mode :: "bytes \<Rightarrow> bytes option \<Rightarrow> exn + unit" where
  "gcm_mode iv tag =
     (if length iv < 8 \<or> 128 < length iv
      then Inl (ValueError ''initialization_vector must be between 8 and 128 bytes (64 and 1024 bits).'')
      else case tag of
             None \<Rightarrow> Inr ()
           | Some t \<Rightarrow>
               if length t < 16 then Inl (ValueError ''Authentication tag must be 16 bytes or longer.'')
               else Inr ())"

definition Cipher :: "cryptography \<Rightarrow> bytes \<Rightarrow> exn + aes_gcm" where
  "Cipher lib key =
     (if 32 < length key
      then Inl (ValueError ''Only 128, 192, and 256 bit keys are allowed for this AES mode'')
      else Inr (aes_cipher lib key))"

definition gcm_encrypt :: "aes_gcm \<Rightarrow> bytes \<Rightarrow> bytes \<Rightarrow> bytes \<times> bytes" where
  "gcm_encrypt g iv plaintext =
     (let ciphertext = ctr_xor g iv plaintext
      in (ciphertext, tag_bytes (ghash_tag g iv ciphertext)))"

definition gcm_decrypt :: "aes_gcm \<Rightarrow> bytes \<Rightarrow> bytes \<Rightarrow> bytes \<Rightarrow> exn + bytes" where
  "gcm_decrypt g iv tag ciphertext =
     (if 16 < length tag then Inl (ValueError ''Authentication tag cannot be more than 16 bytes.'')
      else if tag = tag_bytes (ghash_tag g iv ciphertext) then Inr (ctr_xor g iv ciphertext)
      else Inl InvalidTag)"

text \<open>
  \<open>b64decode\<close> of a value read from a JSON document: anything but a \<open>str\<close> is a
  \<open>TypeError\<close>.
\<close>

fun b64decode_arg :: "pyval \<Rightarrow> exn + bytes" where
  "b64decode_arg (PStr s) = b64decode s"
| "b64decode_arg v = Inl (TypeError ''argument should be a bytes-like object or ASCII string'')"

subsection \<open>The module\<close>

text \<open>
  \<open>len\<close>, \<open>ljust\<close> and the slice \<open>[:n]\<close> of a \<open>str\<close> count characters, which in the
  UTF-8 form of the text are the bytes that are not continuation bytes.
\<close>

definition str_len :: "string \<Rightarrow> nat" where
  "str_len s = length (filter (\<lambda>c. \<not> continuation (byte_of_char c)) s)"

definition ljust :: "nat \<Rightarrow> char \<Rightarrow> string \<Rightarrow> string" where
  "ljust width fillchar s = s @ replicate (width - str_len s) fillchar"

fun str_take :: "nat \<Rightarrow> string \<Rightarrow> string" where
  "str_take n [] = []"
| "str_take n (c # cs) =
     (if continuation (byte_of_char c) then c # str_take n cs
      else case n of 0 \<Rightarrow> [] | Suc m \<Rightarrow> c # str_take m cs)"

text \<open>
  The globals that importing the module leaves: the padded key text and the derived
  key.
\<close>

record encryption =
  ENCRYPTION_KEY_RAW :: string
  ENCRYPTION_KEY :: bytes

text \<open>
  \<open>get_encryption_key\<close>, with the class that the name \<open>PBKDF2\<close> is bound to and the
  global \<open>ENCRYPTION_KEY_RAW\<close>.
\<close>

definition get_encryption_key :: "kdf_class \<Rightarrow> string \<Rightarrow> exn + bytes" where
  "get_encryption_key PBKDF2 raw =
     ebind (PBKDF2 ''sha256'' 32 (map byte_of_char ''kanairy_salt_2024'') 100000) (\<lambda>kdf.
     ebind (encode_utf8 raw) (\<lambda>material.
     kdf material))"

text \<open>
  The module body, run when the module is imported: the import of \<open>PBKDF2\<close>, the key
  text from the environment (padded with \<open>0\<close> to 32 characters when shorter), and the
  key derivation. The other names the module imports (\<open>Cipher\<close>, \<open>algorithms\<close>,
  \<open>modes\<close>, \<open>default_backend\<close>, \<open>hashes\<close>) are defined by the package. The functions
  below exist once this has returned; they read the global \<open>ENCRYPTION_KEY\<close>.
\<close>

definition import_encryption :: "cryptography \<Rightarrow> (string \<rightharpoonup> string) \<Rightarrow> exn + encryption" where
  "import_encryption lib environ =
     ebind (import_from ''cryptography.hazmat.primitives.kdf.pbkdf2'' (pbkdf2_file lib)
              (pbkdf2_module lib) ''PBKDF2'') (\<lambda>PBKDF2.
     let raw = (case environ ''ENCRYPTION_KEY'' of
                  None \<Rightarrow> ''kanairy-secret-key-32-characters-long!''
                | Some v \<Rightarrow> v);
         raw = (if str_len raw < 32 then str_take 32 (ljust 32 (CHR ''0'') raw) else raw)
     in ebind (get_encryption_key PBKDF2 raw) (\<lambda>key.
        Inr \<lparr>ENCRYPTION_KEY_RAW = raw, ENCRYPTION_KEY = key\<rparr>))"

text \<open>
  \<open>encrypt_password\<close>; \<open>urandom\<close> is what \<open>os.urandom(16)\<close> returned. The result is the
  dictionary with the keys \<open>encrypted\<close>, \<open>iv\<close> and \<open>auth_tag\<close>. The handler of the
  \<open>try\<close> block prints and re-raises, here and in \<open>decrypt_password\<close>.
\<close>

definition encrypt_password :: "cryptography \<Rightarrow> encryption \<Rightarrow> bytes \<Rightarrow> string \<Rightarrow> exn + doc" where
  "encrypt_password lib m urandom password =
     (let iv = urandom in
      ebind (algorithms_AES (ENCRYPTION_KEY m)) (\<lambda>key.
      ebind (gcm_mode iv None) (\<lambda>_.
      ebind (Cipher lib key) (\<lambda>cipher.
      ebind (encode_utf8 password) (\<lambda>plaintext.
        case gcm_encrypt cipher iv plaintext of (ciphertext, tag) \<Rightarrow>
          Inr [(''encrypted'', PStr (b64encode ciphertext)),
               (''iv'', PStr (b64encode iv)),
               (''auth_tag'', PStr (b64encode tag))])))))"

definition decrypt_password ::
  "cryptography \<Rightarrow> encryption \<Rightarrow> pyval \<Rightarrow> pyval \<Rightarrow> pyval \<Rightarrow> exn + string" where
  "decrypt_password lib m encrypted iv auth_tag =
     ebind (b64decode_arg encrypted) (\<lambda>ciphertext.
     ebind (b64decode_arg iv) (\<lambda>iv_bytes.
     ebind (b64decode_arg auth_tag) (\<lambda>tag.
     ebind (algorithms_AES (ENCRYPTION_KEY m)) (\<lambda>key.
     ebind (gcm_mode iv_bytes (Some tag)) (\<lambda>_.
     ebind (Cipher lib key) (\<lambda>cipher.
     ebind (gcm_decrypt cipher iv_bytes tag ciphertext) (\<lambda>plaintext.
     decode_utf8 plaintext)))))))"

text \<open>
  A caller of the module, as the service is one: it imports the module, encrypts a
  password, and decrypts the three stored strings.
\<close>

definition round_trip :: "cryptography \<Rightarrow> (string \<rightharpoonup> string) \<Rightarrow> bytes \<Rightarrow> string \<Rightarrow> exn + string" where
  "round_trip lib environ urandom password =
     ebind (import_encryption lib environ) (\<lambda>m.
     ebind (encrypt_password lib m urandom password) (\<lambda>d.
     ebind (getitem d ''encrypted'') (\<lambda>encrypted.
     ebind (getitem d ''iv'') (\<lambda>iv.
     ebind (getitem d ''auth_tag'') (\<lambda>auth_tag.
     decrypt_password lib m encrypted iv auth_tag)))))"

section \<open>Broker session manager and trade execution facade (metaapi\_client.py)\<close>

text \<open>
  The trading SDK is outside the repository. Its objects are handles; each awaited call
  is an oracle that returns a value or raises. Every operation below issues each SDK
  call at most once, so an oracle per operation covers every behaviour of the SDK.
\<close>

record mt_account =
  acc_id :: string
  acc_login :: string
  acc_server :: string

datatype connection = RpcConnection string

record sdk =
  sdk_get_accounts :: "exn + mt_account list"
  sdk_create_account :: "doc \<Rightarrow> exn + mt_account"
  sdk_deploy :: "mt_account \<Rightarrow> exn + unit"
  sdk_wait_deployed :: "mt_account \<Rightarrow> exn + unit"
  sdk_wait_connected :: "mt_account \<Rightarrow> exn + unit"
  sdk_get_rpc_connection :: "mt_account \<Rightarrow> exn + connection"
  sdk_connect :: "connection \<Rightarrow> exn + unit"
  sdk_wait_synchronized :: "connection \<Rightarrow> exn + unit"
  sdk_get_account_information :: "connection \<Rightarrow> exn + doc"
  sdk_create_market_buy_order :: "connection \<Rightarrow> string \<Rightarrow> real \<Rightarrow> real option \<Rightarrow> real option \<Rightarrow> exn + doc"
  sdk_create_market_sell_order :: "connection \<Rightarrow> string \<Rightarrow> real \<Rightarrow> real option \<Rightarrow> real option \<Rightarrow> exn + doc"
  sdk_get_positions :: "connection \<Rightarrow> exn + doc list"
  sdk_close_position :: "connection \<Rightarrow> string \<Rightarrow> exn + doc"

text \<open>The calls issued to the SDK, in order: the observable trace of the client.\<close>

datatype sdk_call =
    GetAccounts
  | CreateAccount doc
  | Deploy mt_account
  | WaitDeployed mt_account
  | WaitConnected mt_account
  | GetRpcConnection mt_account
  | Connect connection
  | WaitSynchronized connection
  | GetAccountInformation connection
  | CreateMarketBuyOrder connection string real "real option" "real option"
  | CreateMarketSellOrder connection string real "real option" "real option"
  | GetPositions connection
  | ClosePosition connection string

text \<open>A cache entry \<open>{'account': account, 'connection': connection}\<close>.\<close>

record session =
  account :: mt_account
  connection :: connection

text \<open>
  \<open>MetaAPIClient\<close>: \<open>accounts\<close> is the cache keyed by login; \<open>sdk_calls\<close> records
  the calls made through \<open>self.api\<close> and the handles it gave out.
\<close>

record MetaAPIClient =
  accounts :: "string \<rightharpoonup> session"
  sdk_calls :: "sdk_call list"

definition await :: "sdk_call \<Rightarrow> exn + 'a \<Rightarrow> (MetaAPIClient, 'a) prog" where
  "await c r = (\<lambda>s. (r, s\<lparr>sdk_calls := sdk_calls s @ [c]\<rparr>))"

definition new_account_request :: "string \<Rightarrow> string \<Rightarrow> string \<Rightarrow> string \<Rightarrow> doc" where
  "new_account_request login password server platform =
     [(''name'', PStr (''KanAIRY_'' @ login)),
      (''type'', PStr ''cloud''),
      (''login'', PStr login),
      (''password'', PStr password),
      (''server'', PStr server),
      (''platform'', PStr platform),
      (''application'', PStr ''KanAIRY''),
      (''magic'', PInt 123456),
      (''region'', PStr ''new-york'')]"

definition cache_account :: "string \<Rightarrow> mt_account \<Rightarrow> connection \<Rightarrow> (MetaAPIClient, unit) prog" where
  "cache_account login acc conn =
     (\<lambda>s. (Inr (), s\<lparr>accounts := (accounts s)(login \<mapsto> \<lparr>account = acc, connection = conn\<rparr>)\<rparr>))"

definition connect_account ::
  "sdk \<Rightarrow> string \<Rightarrow> string \<Rightarrow> string \<Rightarrow> string \<Rightarrow> (MetaAPIClient, doc) prog" where
  "connect_account api login password server platform =
     try_except
       (pbind (await GetAccounts (sdk_get_accounts api)) (\<lambda>existing_accounts.
        pbind (case find (\<lambda>acc. acc_login acc = login \<and> acc_server acc = server) existing_accounts of
                 Some existing_account \<Rightarrow> ret existing_account
               | None \<Rightarrow>
                   await (CreateAccount (new_account_request login password server platform))
                     (sdk_create_account api (new_account_request login password server platform)))
          (\<lambda>acc.
        pbind (await (Deploy acc) (sdk_deploy api acc)) (\<lambda>_.
        pbind (await (WaitDeployed acc) (sdk_wait_deployed api acc)) (\<lambda>_.
        pbind (await (WaitConnected acc) (sdk_wait_connected api acc)) (\<lambda>_.
        pbind (await (GetRpcConnection acc) (sdk_get_rpc_connection api acc)) (\<lambda>conn.
        pbind (await (Connect conn) (sdk_connect api conn)) (\<lambda>_.
        pbind (await (WaitSynchronized conn) (sdk_wait_synchronized api conn)) (\<lambda>_.
        pbind (await (GetAccountInformation conn) (sdk_get_account_information api conn))
          (\<lambda>account_info.
        pbind (cache_account login acc conn) (\<lambda>_.
        pbind (lift (getitem account_info ''balance'')) (\<lambda>balance.
        pbind (lift (format_2f balance)) (\<lambda>_.
        pbind (lift (getitem account_info ''equity'')) (\<lambda>equity.
        pbind (lift (format_2f equity)) (\<lambda>_.
        ret [(''balance'', balance),
             (''equity'', equity),
             (''margin'', get_default account_info ''margin'' (PInt 0)),
             (''freeMargin'', get_default account_info ''freeMargin'' (PInt 0)),
             (''currency'', get_default account_info ''currency'' (PStr ''USD'')),
             (''leverage'', get_default account_info ''leverage'' (PInt 100)),
             (''name'', get_default account_info ''name'' (PStr login))])))))))))))))))
       (\<lambda>e. throw (Exception (''MetaAPI connection failed: '' @ str_exn e)))"

text \<open>
  The facade operations. Each looks the login up in the cache, raises if it is absent,
  and otherwise issues one call on the cached connection. The handler of each
  \<open>try\<close> block prints and re-raises.
\<close>

definition cached_connection :: "string \<Rightarrow> string \<Rightarrow> (MetaAPIClient, connection) prog" where
  "cached_connection login msg =
     (\<lambda>s. case accounts s login of
             None \<Rightarrow> (Inl (Exception msg), s)
           | Some entry \<Rightarrow> (Inr (connection entry), s))"


definition metaapi_place_trade ::
  "sdk \<Rightarrow> string \<Rightarrow> string \<Rightarrow> real \<Rightarrow> string \<Rightarrow> real option \<Rightarrow> real option \<Rightarrow> (MetaAPIClient, doc) prog" where
  "metaapi_place_trade api account_login symbol volume action_type stop_loss take_profit =
     try_except
       (pbind (cached_connection account_login ''Account not connected'') (\<lambda>conn.
        if lower action_type = ''buy''
        then await (CreateMarketBuyOrder conn symbol volume stop_loss take_profit)
               (sdk_create_market_buy_order api conn symbol volume stop_loss take_profit)
        else await (CreateMarketSellOrder conn symbol volume stop_loss take_profit)
               (sdk_create_market_sell_order api conn symbol volume stop_loss take_profit)))
       (\<lambda>e. throw e)"



section \<open>Values read from JSON\<close>

text \<open>
  What the service does with a value whose type it does not know: truth value,
  membership test \<open>k in v\<close>, subscription \<open>v[k]\<close> and \<open>v[0]\<close>, \<open>len(v)\<close>,
  \<open>v.get(k, default)\<close>. A JSON object has string keys only. \<open>str(v)\<close> of a
  \<open>str\<close>, \<open>None\<close> and a \<open>bool\<close> is fixed; for the other values it is the function
  \<open>str_of\<close> given.
\<close>

fun truthy :: "pyval \<Rightarrow> bool" where
  "truthy PNone = False"
| "truthy (PBool b) = b"
| "truthy (PInt i) = (i \<noteq> 0)"
| "truthy (PFloat r) = (r \<noteq> 0)"
| "truthy (PStr s) = (s \<noteq> [])"
| "truthy (PList l) = (l \<noteq> [])"
| "truthy (PDict d) = (d \<noteq> [])"

fun type_name :: "pyval \<Rightarrow> string" where
  "type_name PNone = ''NoneType''"
| "type_name (PBool b) = ''bool''"
| "type_name (PInt i) = ''int''"
| "type_name (PFloat r) = ''float''"
| "type_name (PStr s) = ''str''"
| "type_name (PList l) = ''list''"
| "type_name (PDict d) = ''dict''"

fun is_substring :: "string \<Rightarrow> string \<Rightarrow> bool" where
  "is_substring k [] = (k = [])"
| "is_substring k (c # cs) = (take (length k) (c # cs) = k \<or> is_substring k cs)"

fun contains :: "pyval \<Rightarrow> string \<Rightarrow> exn + bool" where
  "contains (PDict d) k = Inr (k \<in> fst ` set d)"
| "contains (PList l) k = Inr (PStr k \<in> set l)"
| "contains (PStr s) k = Inr (is_substring k s)"
| "contains v k = Inl (TypeError (''argument of type '' @ repr_str (type_name v) @ '' is not iterable''))"

fun subscript :: "pyval \<Rightarrow> string \<Rightarrow> exn + pyval" where
  "subscript (PDict d) k = getitem d k"
| "subscript (PList l) k = Inl (TypeError ''list indices must be integers or slices, not str'')"
| "subscript (PStr s) k = Inl (TypeError (''string indices must be integers, not '' @ repr_str ''str''))"
| "subscript v k = Inl (TypeError (repr_str (type_name v) @ '' object is not subscriptable''))"

fun py_len :: "pyval \<Rightarrow> exn + nat" where
  "py_len (PList l) = Inr (length l)"
| "py_len (PDict d) = Inr (length d)"
| "py_len (PStr s) = Inr (str_len s)"
| "py_len v = Inl (TypeError (''object of type '' @ repr_str (type_name v) @ '' has no len()''))"

fun first_item :: "pyval \<Rightarrow> exn + pyval" where
  "first_item (PList l) = (case l of [] \<Rightarrow> Inl (IndexError ''list index out of range'') | x # xs \<Rightarrow> Inr x)"
| "first_item (PStr s) = (if s = [] then Inl (IndexError ''string index out of range'') else Inr (PStr (str_take 1 s)))"
| "first_item (PDict d) = Inl (KeyError ''0'')"
| "first_item v = Inl (TypeError (repr_str (type_name v) @ '' object is not subscriptable''))"


fun py_str :: "(pyval \<Rightarrow> string) \<Rightarrow> pyval \<Rightarrow> string" where
  "py_str str_of (PStr s) = s"
| "py_str str_of PNone = ''None''"
| "py_str str_of (PBool b) = (if b then ''True'' else ''False'')"
| "py_str str_of v = str_of v"

text \<open>\<open>str.capitalize\<close> on ASCII letters; other bytes are kept.\<close>

fun capitalize :: "string \<Rightarrow> string" where
  "capitalize [] = []"
| "capitalize (c # cs) = upper_char c # lower cs"

section \<open>Request and response models (models.py)\<close>

text \<open>
  A request body has been validated when the handler runs, so its fields have their
  types. A response model validates the values it is built from: a \<open>str\<close> is valid
  for a \<open>str\<close> field, a \<open>float\<close> and a small \<open>int\<close> for a \<open>float\<close> field; what
  pydantic makes of any other value (it converts some, by version) is given by
  \<open>coerce_str\<close> and \<open>coerce_float\<close>, and the text of its error by \<open>error_text\<close>.
\<close>

record BrokerConnect =
  bc_login :: string
  bc_password :: string
  bc_server :: string
  bc_broker :: string
  bc_account_type :: string
  bc_platform :: string

record TradeRequest =
  tr_user_id :: string
  tr_symbol :: string
  tr_volume :: real
  tr_type :: string
  tr_stop_loss :: "real option"
  tr_take_profit :: "real option"

record AccountInfoResponse =
  resp_user_id :: string
  resp_broker_account :: string
  resp_server :: string
  resp_balance :: real
  resp_equity :: real
  resp_margin :: real
  resp_free_margin :: real
  resp_currency :: string

datatype datetime = Datetime string


record pydantic =
  coerce_str :: "pyval \<Rightarrow> string option"
  coerce_float :: "pyval \<Rightarrow> real option"
  error_text :: "string \<Rightarrow> string list \<Rightarrow> string"

definition str_value :: "pydantic \<Rightarrow> pyval \<Rightarrow> string option" where
  "str_value p v = (case v of PStr s \<Rightarrow> Some s | _ \<Rightarrow> coerce_str p v)"

definition float_value :: "pydantic \<Rightarrow> pyval \<Rightarrow> real option" where
  "float_value p v =
     (case v of
        PFloat r \<Rightarrow> Some r
      | PInt i \<Rightarrow> if \<bar>i\<bar> \<le> 2 ^ 53 then Some (of_int i) else coerce_float p v
      | _ \<Rightarrow> coerce_float p v)"

definition invalid_fields :: "(string \<times> bool) list \<Rightarrow> string list" where
  "invalid_fields checks = map fst (filter (\<lambda>f. \<not> snd f) checks)"

definition new_AccountInfoResponse ::
  "pydantic \<Rightarrow> pyval \<Rightarrow> pyval \<Rightarrow> pyval \<Rightarrow> pyval \<Rightarrow> pyval \<Rightarrow> pyval \<Rightarrow> pyval \<Rightarrow> pyval \<Rightarrow>
   exn + AccountInfoResponse" where
  "new_AccountInfoResponse p user_id broker_account server balance equity margin free_margin currency =
     (case Option.bind (str_value p user_id) (\<lambda>u.
           Option.bind (str_value p broker_account) (\<lambda>b.
           Option.bind (str_value p server) (\<lambda>s.
           Option.bind (float_value p balance) (\<lambda>ba.
           Option.bind (float_value p equity) (\<lambda>e.
           Option.bind (float_value p margin) (\<lambda>m.
           Option.bind (float_value p free_margin) (\<lambda>f.
           Option.bind (str_value p currency) (\<lambda>c.
             Some \<lparr>resp_user_id = u, resp_broker_account = b, resp_server = s, resp_balance = ba,
                   resp_equity = e, resp_margin = m, resp_free_margin = f, resp_currency = c\<rparr>))))))))
      of Some r \<Rightarrow> Inr r
       | None \<Rightarrow> Inl (ValidationError (error_text p ''AccountInfoResponse''
           (invalid_fields
              [(''user_id'', str_value p user_id \<noteq> None),
               (''broker_account'', str_value p broker_account \<noteq> None),
               (''server'', str_value p server \<noteq> None),
               (''balance'', float_value p balance \<noteq> None),
               (''equity'', float_value p equity \<noteq> None),
               (''margin'', float_value p margin \<noteq> None),
               (''free_margin'', float_value p free_margin \<noteq> None),
               (''currency'', str_value p currency \<noteq> None)]))))"


section \<open>Document store client (appwrite\_client.py)\<close>

text \<open>
  An HTTP request as the client sends it: the method, the URL, and the JSON body or
  the query parameters. The store is outside the repository: \<open>http\<close> gives, for the
  requests sent so far and the request sent now, what the \<open>requests\<close> library does:
  it raises (a \<open>RequestException\<close> from the transport, from \<open>raise_for_status\<close> or
  from decoding, or another exception), or the response has no content (\<open>None\<close>), or
  \<open>response.json()\<close> is a value.
\<close>

record request =
  req_method :: string
  req_url :: string
  req_json :: "doc option"
  req_params :: "doc option"

text \<open>
  The surroundings of the service: the SDK, the store, the clock (the text of
  \<open>datetime.utcnow().isoformat()\<close> after the requests sent so far), the bytes drawn by
  \<open>os.urandom(16)\<close>, the cryptography package and the loaded \<open>encryption\<close> module,
  pydantic, \<open>str\<close> of values that are not text, \<open>datetime.fromisoformat\<close>, and the
  configuration of the store client.
\<close>

record env =
  env_api :: sdk
  env_http :: "request list \<Rightarrow> request \<Rightarrow> exn + pyval option"
  env_utcnow :: "request list \<Rightarrow> string"
  env_urandom :: bytes
  env_crypto :: cryptography
  env_encryption :: encryption
  env_pydantic :: pydantic
  env_str :: "pyval \<Rightarrow> string"
  env_fromisoformat :: "string \<Rightarrow> datetime option"
  endpoint :: string
  database_id :: string
  users_collection_id :: string
  positions_collection_id :: string

text \<open>
  The state of the service: the module global \<open>metaapi_client\<close> (\<open>None\<close> when no token
  is configured) and the requests sent to the store, in order.
\<close>

record world =
  metaapi_client :: "MetaAPIClient option"
  requests :: "request list"

definition send :: "env \<Rightarrow> request \<Rightarrow> (world, pyval) prog" where
  "send env req =
     (\<lambda>w. (case env_http env (requests w) req of
              Inl e \<Rightarrow> Inl e
            | Inr None \<Rightarrow> Inr (PDict [])
            | Inr (Some v) \<Rightarrow> Inr v,
            w\<lparr>requests := requests w @ [req]\<rparr>))"

definition make_request ::
  "env \<Rightarrow> string \<Rightarrow> string \<Rightarrow> doc option \<Rightarrow> doc option \<Rightarrow> (world, pyval) prog" where
  "make_request env method path data params =
     (let url = endpoint env @ path in
      try_except
        (if method = ''GET'' then
           send env \<lparr>req_method = method, req_url = url, req_json = None, req_params = params\<rparr>
         else if method = ''POST'' then
           send env \<lparr>req_method = method, req_url = url, req_json = data, req_params = None\<rparr>
         else if method = ''PUT'' then
           send env \<lparr>req_method = method, req_url = url, req_json = data, req_params = None\<rparr>
         else if method = ''DELETE'' then
           send env \<lparr>req_method = method, req_url = url, req_json = None, req_params = params\<rparr>
         else if method = ''PATCH'' then
           send env \<lparr>req_method = method, req_url = url, req_json = data, req_params = None\<rparr>
         else throw (ValueError (''Unsupported method: '' @ method)))
        (\<lambda>e. case e of
                RequestException m \<Rightarrow> ret (PDict [(''error'', PStr m)])
              | _ \<Rightarrow> throw e))"

definition users_path :: "env \<Rightarrow> string" where
  "users_path env =
     ''/databases/'' @ database_id env @ ''/collections/'' @ users_collection_id env @ ''/documents''"

definition positions_path :: "env \<Rightarrow> string" where
  "positions_path env =
     ''/databases/'' @ database_id env @ ''/collections/'' @ positions_collection_id env @ ''/documents''"

definition create_user :: "env \<Rightarrow> doc \<Rightarrow> (world, pyval) prog" where
  "create_user env user_data = make_request env ''POST'' (users_path env) (Some user_data) None"

definition equal_query :: "string \<Rightarrow> string \<Rightarrow> string" where
  "equal_query attribute v =
     ''equal('' @ [CHR 0x22] @ attribute @ [CHR 0x22] @ '', '' @ [CHR 0x22] @ v @ [CHR 0x22] @ '')''"

definition get_user_by_broker_account :: "env \<Rightarrow> string \<Rightarrow> string \<Rightarrow> (world, pyval) prog" where
  "get_user_by_broker_account env broker_account server =
     pbind (make_request env ''GET'' (users_path env) None
              (Some [(''queries'', PList [PStr (equal_query ''broker_account'' broker_account),
                                          PStr (equal_query ''server'' server)]),
                     (''limit'', PInt 1)])) (\<lambda>result.
     pbind (lift (contains result ''documents'')) (\<lambda>present.
     if present then
       pbind (lift (subscript result ''documents'')) (\<lambda>documents.
       pbind (lift (py_len documents)) (\<lambda>n.
       if 0 < n then
         pbind (lift (subscript result ''documents'')) (\<lambda>documents.
         lift (first_item documents))
       else ret PNone))
     else ret PNone))"

definition get_user_by_id :: "env \<Rightarrow> string \<Rightarrow> (world, pyval) prog" where
  "get_user_by_id env user_id =
     try_except
       (make_request env ''GET'' (users_path env @ ''/'' @ user_id) None None)
       (\<lambda>e. ret PNone)"

definition update_user :: "env \<Rightarrow> string \<Rightarrow> doc \<Rightarrow> (world, pyval) prog" where
  "update_user env user_id update_data =
     make_request env ''PATCH'' (users_path env @ ''/'' @ user_id) (Some update_data) None"

definition create_position :: "env \<Rightarrow> doc \<Rightarrow> (world, pyval) prog" where
  "create_position env position_data =
     make_request env ''POST'' (positions_path env) (Some position_data) None"

section \<open>HTTP handlers (main.py)\<close>

text \<open>
  Lines 49 to 56: the client of the trading backend exists when \<open>METAAPI\_TOKEN\<close> is set
  to a text that is not empty.
\<close>

definition init_metaapi_client :: "(string \<rightharpoonup> string) \<Rightarrow> MetaAPIClient option" where
  "init_metaapi_client environ =
     (case environ ''METAAPI_TOKEN'' of
        None \<Rightarrow> None
      | Some metaapi_token \<Rightarrow>
          if metaapi_token = [] then None else Some \<lparr>accounts = Map.empty, sdk_calls = []\<rparr>)"

text \<open>
  The status code of the response: 200 for a returned value, the code of an
  \<open>HTTPException\<close>, and 500 for any other exception, which the framework answers
  with an internal server error.
\<close>

fun http_status :: "exn + 'a \<Rightarrow> nat" where
  "http_status (Inr v) = 200"
| "http_status (Inl (HTTPException c d)) = c"
| "http_status (Inl e) = 500"

text \<open>
  \<open>if not metaapi\_client: raise HTTPException(503, detail)\<close>, and a method call on the
  client, which runs on the client's state.
\<close>

definition require_metaapi :: "string \<Rightarrow> (world, unit) prog" where
  "require_metaapi detail =
     (\<lambda>w. case metaapi_client w of
             None \<Rightarrow> (Inl (HTTPException 503 detail), w)
           | Some c \<Rightarrow> (Inr (), w))"

definition with_client :: "string \<Rightarrow> (MetaAPIClient, 'a) prog \<Rightarrow> (world, 'a) prog" where
  "with_client method f =
     (\<lambda>w. case metaapi_client w of
             None \<Rightarrow> (Inl (AttributeError (repr_str ''NoneType'' @ '' object has no attribute '' @
                        repr_str method)), w)
           | Some c \<Rightarrow> (case f c of (r, c') \<Rightarrow> (r, w\<lparr>metaapi_client := Some c'\<rparr>)))"

text \<open>
  A facade operation called with a login read from a stored document. The cache is
  keyed by text: a login that is text is looked up, a list or an object cannot be
  hashed, and any other value is not in the cache.
\<close>

definition for_login :: "pyval \<Rightarrow> string \<Rightarrow> (string \<Rightarrow> (MetaAPIClient, 'a) prog) \<Rightarrow> (MetaAPIClient, 'a) prog" where
  "for_login v msg operation =
     (case v of
        PStr login \<Rightarrow> operation login
      | PList l \<Rightarrow> throw (TypeError (''unhashable type: '' @ repr_str ''list''))
      | PDict d \<Rightarrow> throw (TypeError (''unhashable type: '' @ repr_str ''dict''))
      | _ \<Rightarrow> throw (Exception msg))"

definition utcnow :: "env \<Rightarrow> (world, string) prog" where
  "utcnow env = (\<lambda>w. (Inr (env_utcnow env (requests w)), w))"

text \<open>
  Lines 145 to 185 of \<open>connect_broker\<close>: the user document is looked up by login and
  server. When one is found, its id is used and its stored password is decrypted, the
  password of the request being used when that fails; otherwise the password of the
  request is encrypted and a user document is created. The result is \<open>user_id\<close> and
  \<open>decrypted_password\<close>.
\<close>

definition existing_or_new_user :: "env \<Rightarrow> BrokerConnect \<Rightarrow> (world, pyval \<times> string) prog" where
  "existing_or_new_user env data =
     pbind (get_user_by_broker_account env (bc_login data) (bc_server data)) (\<lambda>existing_user.
     if truthy existing_user then
       pbind (lift (subscript existing_user ''$id'')) (\<lambda>user_id.
       pbind (try_except
                (pbind (lift (subscript existing_user ''encrypted_password'')) (\<lambda>encrypted.
                 pbind (lift (subscript existing_user ''iv'')) (\<lambda>iv.
                 pbind (lift (subscript existing_user ''auth_tag'')) (\<lambda>auth_tag.
                 lift (decrypt_password (env_crypto env) (env_encryption env) encrypted iv auth_tag)))))
                (\<lambda>e. ret (bc_password data))) (\<lambda>decrypted_password.
       ret (user_id, decrypted_password)))
     else
       pbind (lift (encrypt_password (env_crypto env) (env_encryption env) (env_urandom env)
                (bc_password data))) (\<lambda>encrypted.
       pbind (lift (getitem encrypted ''encrypted'')) (\<lambda>encrypted_password.
       pbind (lift (getitem encrypted ''iv'')) (\<lambda>iv.
       pbind (lift (getitem encrypted ''auth_tag'')) (\<lambda>auth_tag.
       pbind (utcnow env) (\<lambda>last_login.
       pbind (create_user env
                [(''broker_account'', PStr (bc_login data)),
                 (''encrypted_password'', encrypted_password),
                 (''iv'', iv),
                 (''auth_tag'', auth_tag),
                 (''server'', PStr (bc_server data)),
                 (''broker'', PStr (bc_broker data)),
                 (''account_type'', PStr (bc_account_type data)),
                 (''balance'', PFloat 0),
                 (''equity'', PFloat 0),
                 (''currency'', PStr ''USD''),
                 (''last_login'', PStr last_login)]) (\<lambda>result.
       pbind (lift (subscript result ''$id'')) (\<lambda>user_id.
       ret (user_id, bc_password data)))))))))"

definition connect_broker :: "env \<Rightarrow> BrokerConnect \<Rightarrow> (world, AccountInfoResponse) prog" where
  "connect_broker env data =
     try_except
       (pbind (require_metaapi ''MetaAPI not configured. Set METAAPI_TOKEN environment variable.'') (\<lambda>_.
        pbind (existing_or_new_user env data) (\<lambda>(user_id, decrypted_password).
        pbind (with_client ''connect_account''
                 (connect_account (env_api env) (bc_login data) decrypted_password (bc_server data)
                    (bc_platform data))) (\<lambda>account_info.
        pbind (lift (getitem account_info ''balance'')) (\<lambda>balance.
        pbind (lift (getitem account_info ''equity'')) (\<lambda>equity.
        pbind (utcnow env) (\<lambda>last_login.
        pbind (update_user env (py_str (env_str env) user_id)
                 [(''balance'', balance), (''equity'', equity), (''last_login'', PStr last_login)]) (\<lambda>_.
        pbind (lift (format_2f balance)) (\<lambda>_.
        pbind (lift (format_2f equity)) (\<lambda>_.
        pbind (lift (getitem account_info ''currency'')) (\<lambda>currency.
        lift (new_AccountInfoResponse (env_pydantic env) user_id (PStr (bc_login data))
                (PStr (bc_server data)) balance equity
                (get_default account_info ''margin'' (PInt 0))
                (get_default account_info ''freeMargin'' (PInt 0))
                currency))))))))))))
       (\<lambda>e. throw (HTTPException 500 (''Connection failed: '' @ str_exn e)))"




text \<open>\<open>POST /api/trade\<close>. The value returned is the JSON object of the response.\<close>

definition opt_float :: "real option \<Rightarrow> pyval" where
  "opt_float v = (case v of None \<Rightarrow> PNone | Some r \<Rightarrow> PFloat r)"

text \<open>
  The dictionary \<open>position_data\<close> that the handler saves, from the request, the
  execution result and the clock.
\<close>

definition position_data :: "env \<Rightarrow> TradeRequest \<Rightarrow> doc \<Rightarrow> string \<Rightarrow> doc" where
  "position_data env trade result opened_at =
     [(''user_id'', PStr (tr_user_id trade)),
      (''symbol'', PStr (tr_symbol trade)),
      (''type'', PStr (capitalize (tr_type trade))),
      (''volume'', PFloat (tr_volume trade)),
      (''open_price'', get_default result ''openPrice'' (get_default result ''price'' (PInt 0))),
      (''current_price'', get_default result ''openPrice'' (get_default result ''price'' (PInt 0))),
      (''stop_loss'', opt_float (tr_stop_loss trade)),
      (''take_profit'', opt_float (tr_take_profit trade)),
      (''profit'', PFloat 0),
      (''status'', PStr ''open''),
      (''broker_position_id'',
         PStr (py_str (env_str env)
           (get_default result ''positionId'' (get_default result ''orderId'' (PStr ''''))))),
      (''opened_at'', PStr opened_at)]"


section \<open>Observed calls\<close>

text \<open>The one order call a trade issues on a connection.\<close>

definition order_call :: "string \<Rightarrow> connection \<Rightarrow> string \<Rightarrow> real \<Rightarrow> real option \<Rightarrow> real option \<Rightarrow> sdk_call" where
  "order_call action_type conn symbol volume stop_loss take_profit =
     (if lower action_type = ''buy''
      then CreateMarketBuyOrder conn symbol volume stop_loss take_profit
      else CreateMarketSellOrder conn symbol volume stop_loss take_profit)"



definition user_lookup_request :: "env \<Rightarrow> string \<Rightarrow> string \<Rightarrow> request" where
  "user_lookup_request env broker_account server =
     \<lparr>req_method = ''GET'', req_url = endpoint env @ users_path env, req_json = None,
      req_params = Some [(''queries'', PList [PStr (equal_query ''broker_account'' broker_account),
                                              PStr (equal_query ''server'' server)]),
                         (''limit'', PInt 1)]\<rparr>"

definition user_update_request :: "env \<Rightarrow> string \<Rightarrow> doc \<Rightarrow> request" where
  "user_update_request env user_id update_data =
     \<lparr>req_method = ''PATCH'', req_url = endpoint env @ users_path env @ ''/'' @ user_id,
      req_json = Some update_data, req_params = None\<rparr>"


section \<open>Example inputs\<close>

definition demo_account :: mt_account where
  "demo_account = \<lparr>acc_id = ''acc-1'', acc_login = ''100200'', acc_server = ''Demo-1''\<rparr>"

definition demo_info :: doc where
  "demo_info = [(''balance'', PFloat 1000), (''equity'', PFloat 1000), (''currency'', PStr ''USD'')]"

definition demo_order :: doc where
  "demo_order = [(''orderId'', PStr ''46870472''), (''positionId'', PStr ''46870472''),
                 (''openPrice'', PFloat 1.0845)]"

definition demo_sdk :: sdk where
  "demo_sdk =
     \<lparr>sdk_get_accounts = Inr [],
      sdk_create_account = (\<lambda>_. Inr demo_account),
      sdk_deploy = (\<lambda>_. Inr ()),
      sdk_wait_deployed = (\<lambda>_. Inr ()),
      sdk_wait_connected = (\<lambda>_. Inr ()),
      sdk_get_rpc_connection = (\<lambda>acc. Inr (RpcConnection (acc_id acc))),
      sdk_connect = (\<lambda>_. Inr ()),
      sdk_wait_synchronized = (\<lambda>_. Inr ()),
      sdk_get_account_information = (\<lambda>_. Inr demo_info),
      sdk_create_market_buy_order = (\<lambda>_ _ _ _ _. Inr demo_order),
      sdk_create_market_sell_order = (\<lambda>_ _ _ _ _. Inr demo_order),
      sdk_get_positions = (\<lambda>_. Inr []),
      sdk_close_position = (\<lambda>_ _. Inr [(''profit'', PFloat 0)])\<rparr>"

definition fresh_client :: MetaAPIClient where
  "fresh_client = \<lparr>accounts = Map.empty, sdk_calls = []\<rparr>"

definition connected_client :: MetaAPIClient where
  "connected_client =
     snd (connect_account demo_sdk ''100200'' ''secret'' ''Demo-1'' ''mt5'' fresh_client)"


text \<open>An SDK whose account information has no \<open>balance\<close>.\<close>

definition no_balance_sdk :: sdk where
  "no_balance_sdk = demo_sdk
     \<lparr>sdk_get_account_information :=
        (\<lambda>_. Inr [(''equity'', PFloat 1000), (''currency'', PStr ''USD'')])\<rparr>"












definition unconfigured_world :: world where
  "unconfigured_world = \<lparr>metaapi_client = init_metaapi_client Map.empty, requests = []\<rparr>"


definition demo_connect :: BrokerConnect where
  "demo_connect =
     \<lparr>bc_login = ''100200'', bc_password = ''typed'', bc_server = ''Demo-1'', bc_broker = ''mt5'',
      bc_account_type = ''demo'', bc_platform = ''mt5''\<rparr>"


section \<open>Properties of the session manager and the facade\<close>

lemmas prog_defs =
  ret_def throw_def lift_def pbind_def try_except_def await_def cache_account_def
  cached_connection_def

lemma connect_account_caches:
  assumes "connect_account api login password server platform s = (Inr info, s1)"
  shows "\<exists>entry. accounts s1 = (accounts s)(login \<mapsto> entry)"
  using assms
  by (auto simp: connect_account_def prog_defs split: sum.splits prod.splits option.splits)

lemma place_trade_cached:
  assumes "accounts s login = Some entry"
  shows "snd (metaapi_place_trade api login symbol volume action_type stop_loss take_profit s) =
           s\<lparr>sdk_calls := sdk_calls s @
             [order_call action_type (connection entry) symbol volume stop_loss take_profit]\<rparr>"
  using assms
  by (auto simp: metaapi_place_trade_def order_call_def prog_defs
      split: sum.splits prod.splits option.splits)

lemma connected_client_eq:
  "connect_account demo_sdk ''100200'' ''secret'' ''Demo-1'' ''mt5'' fresh_client =
     (Inr [(''balance'', PFloat 1000), (''equity'', PFloat 1000), (''margin'', PInt 0),
           (''freeMargin'', PInt 0), (''currency'', PStr ''USD''), (''leverage'', PInt 100),
           (''name'', PStr ''100200'')],
      \<lparr>accounts = [''100200'' \<mapsto> \<lparr>account = demo_account, connection = RpcConnection ''acc-1''\<rparr>],
       sdk_calls = [GetAccounts, CreateAccount (new_account_request ''100200'' ''secret'' ''Demo-1'' ''mt5''),
         Deploy demo_account, WaitDeployed demo_account, WaitConnected demo_account,
         GetRpcConnection demo_account, Connect (RpcConnection ''acc-1''),
         WaitSynchronized (RpcConnection ''acc-1''), GetAccountInformation (RpcConnection ''acc-1'')]\<rparr>)"
  by (simp add: connect_account_def prog_defs demo_sdk_def fresh_client_def demo_account_def
      demo_info_def getitem_def get_default_def)

text \<open>
  When \<open>connect_account\<close> fails, either the cache is what it was, or every SDK call
  of the sequence had returned, the session was written to the cache, and the
  failure came from reading or formatting \<open>balance\<close> or \<open>equity\<close> of the account
  information. A failure of an SDK call itself therefore leaves the cache as it was.
\<close>

lemma connect_account_failure:
  assumes "connect_account api login password server platform s = (Inl x, s1)"
  shows "accounts s1 = accounts s \<or>
         (\<exists>acc conn info e.
            sdk_get_account_information api conn = Inr info \<and>
            accounts s1 = (accounts s)(login \<mapsto> \<lparr>account = acc, connection = conn\<rparr>) \<and>
            x = Exception (''MetaAPI connection failed: '' @ str_exn e) \<and>
            (getitem info ''balance'' = Inl e \<or>
             (\<exists>balance. getitem info ''balance'' = Inr balance \<and>
                (format_2f balance = Inl e \<or> getitem info ''equity'' = Inl e \<or>
                 (\<exists>equity. getitem info ''equity'' = Inr equity \<and> format_2f equity = Inl e)))))"
  using assms
  by (auto simp: connect_account_def prog_defs split: sum.splits prod.splits option.splits)

lemma repr_balance: "repr_str ''balance'' = [CHR 0x27] @ ''balance'' @ [CHR 0x27]"
  by code_simp

text \<open>
  Claim C3. The claim fails where the last step of the sequence does: the session is
  written to the cache as soon as the account information has arrived, before
  \<open>balance\<close> and \<open>equity\<close> are read from it. With account information that has no
  \<open>balance\<close>, \<open>connect_account\<close> raises its connection error, with the cause
  \<open>KeyError('balance')\<close> in the message, and the cache, which had no entry for the
  login, now has the session.
\<close>

theorem connect_account_caches_on_failure:
  "accounts fresh_client ''100200'' = None \<and>
   connect_account no_balance_sdk ''100200'' ''secret'' ''Demo-1'' ''mt5'' fresh_client =
     (Inl (Exception (''MetaAPI connection failed: '' @ [CHR 0x27] @ ''balance'' @ [CHR 0x27])),
      \<lparr>accounts = [''100200'' \<mapsto> \<lparr>account = demo_account, connection = RpcConnection ''acc-1''\<rparr>],
       sdk_calls = [GetAccounts, CreateAccount (new_account_request ''100200'' ''secret'' ''Demo-1'' ''mt5''),
         Deploy demo_account, WaitDeployed demo_account, WaitConnected demo_account,
         GetRpcConnection demo_account, Connect (RpcConnection ''acc-1''),
         WaitSynchronized (RpcConnection ''acc-1''), GetAccountInformation (RpcConnection ''acc-1'')]\<rparr>)"
  by (simp add: connect_account_def prog_defs demo_sdk_def no_balance_sdk_def fresh_client_def
      demo_account_def getitem_def repr_balance)

text \<open>
  Claim C2. After a successful connect for a login has filled the session cache, a trade
  for that login leaves the cache unchanged and issues exactly one SDK call, the market
  order on the cached connection: no registry lookup, account creation, deploy, connect
  or synchronize call is made again.
\<close>

theorem place_trade_reuses_session:
  assumes "connect_account api login password server platform s0 = (Inr info, s1)"
      and "metaapi_place_trade api' login symbol volume action_type stop_loss take_profit s1 = (r, s2)"
  shows "accounts s2 = accounts s1 \<and>
         (\<exists>entry. accounts s1 login = Some entry \<and>
            sdk_calls s2 = sdk_calls s1 @
              [order_call action_type (connection entry) symbol volume stop_loss take_profit])"
proof -
  from connect_account_caches [OF assms(1)] obtain entry where c: "accounts s1 login = Some entry"
    by auto
  from place_trade_cached [OF this, of api' symbol volume action_type stop_loss take_profit] assms(2)
  have "s2 = s1\<lparr>sdk_calls := sdk_calls s1 @
      [order_call action_type (connection entry) symbol volume stop_loss take_profit]\<rparr>"
    by simp
  with c show ?thesis by simp
qed

theorem place_trade_reuses_session_witness:
  "connect_account demo_sdk ''100200'' ''secret'' ''Demo-1'' ''mt5'' fresh_client =
     (Inr [(''balance'', PFloat 1000), (''equity'', PFloat 1000), (''margin'', PInt 0),
           (''freeMargin'', PInt 0), (''currency'', PStr ''USD''), (''leverage'', PInt 100),
           (''name'', PStr ''100200'')], connected_client) \<and>
   accounts (snd (metaapi_place_trade demo_sdk ''100200'' ''EURUSD'' 0.1 ''buy'' None None
     connected_client)) = accounts connected_client \<and>
   sdk_calls (snd (metaapi_place_trade demo_sdk ''100200'' ''EURUSD'' 0.1 ''buy'' None None
     connected_client)) =
     sdk_calls connected_client @
       [CreateMarketBuyOrder (RpcConnection ''acc-1'') ''EURUSD'' 0.1 None None]"
proof -
  let ?t = "metaapi_place_trade demo_sdk ''100200'' ''EURUSD'' 0.1 ''buy'' None None connected_client"
  have a: "connect_account demo_sdk ''100200'' ''secret'' ''Demo-1'' ''mt5'' fresh_client =
     (Inr [(''balance'', PFloat 1000), (''equity'', PFloat 1000), (''margin'', PInt 0),
           (''freeMargin'', PInt 0), (''currency'', PStr ''USD''), (''leverage'', PInt 100),
           (''name'', PStr ''100200'')], connected_client)"
    by (simp add: connected_client_def connected_client_eq)
  have e: "accounts connected_client ''100200'' =
      Some \<lparr>account = demo_account, connection = RpcConnection ''acc-1''\<rparr>"
    by (simp add: connected_client_def connected_client_eq)
  have l: "lower ''buy'' = ''buy''" by code_simp
  have b: "?t = (fst ?t, snd ?t)"
    by simp
  from place_trade_reuses_session [OF a b] a e l show ?thesis
    by (simp add: order_call_def)
qed






section \<open>Properties of the credential cipher\<close>

lemma m3: "(3 :: byte) = mask 2" "(15 :: byte) = mask 4" "(63 :: byte) = mask 6"
  by (simp_all add: mask_eq_exp_minus_1)


lemma SS: "Suc (Suc (n - 2)) = (if 2 \<le> n then n else 2)"
  "k + (n - k) = (if k \<le> n then n else (k::nat))"
  by arith+

lemma q1: fixes a b c :: byte shows "push_bit 2 (drop_bit 2 a) OR drop_bit 4 (push_bit 4 (a AND 3) OR drop_bit 4 b) = a"
  unfolding m3
  by (rule bit_word_eqI) (auto simp: bit_simps SS split: if_splits)

lemma q2: fixes a b c :: byte shows "push_bit 4 ((push_bit 4 (a AND 3) OR drop_bit 4 b) AND 15) OR drop_bit 2 (push_bit 2 (b AND 15) OR drop_bit 6 c) = b"
  unfolding m3
  by (rule bit_word_eqI) (auto simp: bit_simps SS split: if_splits)

lemma q3: fixes a b c :: byte shows "push_bit 6 ((push_bit 2 (b AND 15) OR drop_bit 6 c) AND 3) OR (c AND 63) = c"
  unfolding m3
  by (rule bit_word_eqI) (auto simp: bit_simps SS split: if_splits)

lemma q2': fixes a b c :: byte shows "push_bit 4 ((push_bit 4 (a AND 3) OR drop_bit 4 b) AND 15) OR drop_bit 2 (push_bit 2 (b AND 15)) = b"
  unfolding m3
  by (rule bit_word_eqI) (auto simp: bit_simps SS split: if_splits)

lemma q1': fixes a b c :: byte shows "push_bit 2 (drop_bit 2 a) OR drop_bit 4 (push_bit 4 (a AND 3)) = a"
  unfolding m3
  by (rule bit_word_eqI) (auto simp: bit_simps SS split: if_splits)




lemma below64: "w AND mask 6 = w \<Longrightarrow> (w::byte) < 64"
  using and_mask_less' [of 6 w] by simp

lemma sextets:
  fixes a b c :: byte
  shows "drop_bit 2 a < 64" "push_bit 4 (a AND 3) < 64" "push_bit 4 (a AND 3) OR drop_bit 4 b < 64"
    "push_bit 2 (b AND 15) < 64" "push_bit 2 (b AND 15) OR drop_bit 6 c < 64" "c AND 63 < 64"
  unfolding m3
  by (rule below64, rule bit_word_eqI, auto simp: bit_simps SS split: if_splits dest: bit_imp_le_length)+

lemma a2b_b2a_nat: "n < 64 \<Longrightarrow> a2b (b2a (of_nat n)) = Some (of_nat n)"
proof -
  assume "n < 64"
  then consider "n < 62" | "n = 62" | "n = 63" by linarith
  then show ?thesis
    by cases (auto simp: a2b_def b2a_def Let_def of_char_of unat_of_nat)
qed

lemma a2b_b2a: "v < 64 \<Longrightarrow> a2b (b2a v) = Some v"
  using a2b_b2a_nat [of "unat v"] by (simp add: word_less_nat_alt)

lemma b2a_of_char: "v < 64 \<Longrightarrow> (of_char (b2a v) :: nat) \<noteq> 61 \<and> (of_char (b2a v) :: nat) < 128"
proof -
  assume "v < 64"
  then have u: "unat v < 64" by (simp add: word_less_nat_alt)
  then show ?thesis
    by (auto simp: b2a_def Let_def of_char_of)
qed

lemma b2a_not_pad: "v < 64 \<Longrightarrow> b2a v \<noteq> CHR ''=''"
  using b2a_of_char [of v] by auto

lemma a2b_base64_b2a_base64: "a2b_base64 0 l p out (b2a_base64 bs) = Inr (out @ bs)"
proof (induction bs arbitrary: l p out rule: b2a_base64.induct)
  case 1
  show ?case by simp
next
  case (2 a)
  show ?case by (simp add: a2b_b2a b2a_not_pad sextets q1 q1' q2 q2' q3 del: push_bit_and)
next
  case (3 a b)
  show ?case by (simp add: a2b_b2a b2a_not_pad sextets q1 q1' q2 q2' q3 del: push_bit_and)
next
  case (4 a b c rest)
  show ?case by (simp add: a2b_b2a b2a_not_pad sextets q1 q1' q2 q2' q3 "4.IH" del: push_bit_and)
qed

lemma b2a_base64_ascii: "c \<in> set (b2a_base64 bs) \<Longrightarrow> (of_char c :: nat) < 128"
proof (induction bs rule: b2a_base64.induct)
  case (4 a b c' rest)
  then show ?case using b2a_of_char sextets by auto
qed (use b2a_of_char sextets in auto)

lemma b64decode_b64encode: "b64decode (b64encode bs) = Inr bs"
  using b2a_base64_ascii [of _ bs]
  by (auto simp: b64decode_def b64encode_def a2b_base64_b2a_base64 not_le)

lemma char_of_byte_of_char: "char_of_byte (byte_of_char c) = c"
  by (simp add: char_of_byte_def byte_of_char_def unat_of_nat)

lemma decode_encode_utf8: "encode_utf8 s = Inr bs \<Longrightarrow> decode_utf8 bs = Inr s"
  by (auto simp: encode_utf8_def decode_utf8_def char_of_byte_of_char comp_def split: if_splits)

lemma xor_twice: "length ks = length xs \<Longrightarrow>
    map2 (\<lambda>x k. x XOR k) (map2 (\<lambda>x k. x XOR k) xs ks) ks = (xs :: bytes)"
  by (induction xs ks rule: list_induct2') (auto simp: xor.assoc)

lemma ctr_xor_length: "length (ctr_xor g iv data) = length data"
  by (simp add: ctr_xor_def)

lemma ctr_xor_twice: "ctr_xor g iv (ctr_xor g iv data) = data"
  unfolding ctr_xor_def by (simp add: xor_twice)

lemma tag_bytes_length: "length (tag_bytes t) = 16"
  by (simp add: tag_bytes_def)

lemma decrypt_encrypt_password:
  assumes "utf8_valid (map byte_of_char password)" and "length urandom = 16"
    and "length (ENCRYPTION_KEY m) \<in> {16, 24, 32}"
  shows "\<exists>c i t. encrypt_password lib m urandom password =
            Inr [(''encrypted'', PStr c), (''iv'', PStr i), (''auth_tag'', PStr t)] \<and>
          decrypt_password lib m (PStr c) (PStr i) (PStr t) = Inr password"
  using assms
  by (auto simp: encrypt_password_def decrypt_password_def ebind_def gcm_mode_def gcm_encrypt_def
      gcm_decrypt_def encode_utf8_def b64decode_b64encode tag_bytes_length ctr_xor_twice
      decode_utf8_def ctr_xor_length char_of_byte_of_char comp_def Let_def algorithms_AES_def
      Cipher_def)

text \<open>
  Claim C1. The round trip is not reached: with the package as released, importing the
  module raises \<open>ImportError\<close> at its import of \<open>PBKDF2\<close>, whatever the environment,
  so \<open>encrypt_password\<close> and \<open>decrypt_password\<close> are never defined, and a caller that
  imports the module to encrypt and decrypt a password gets that error for every
  password and every IV.
\<close>

theorem import_encryption_fails:
  "import_encryption (cryptography_release pbkdf2_hmac file cipher) environ =
     Inl (ImportError (''cannot import name '' @ repr_str ''PBKDF2'' @ '' from '' @
            repr_str ''cryptography.hazmat.primitives.kdf.pbkdf2'' @ '' ('' @ file @ '')'')) \<and>
   round_trip (cryptography_release pbkdf2_hmac file cipher) environ urandom password =
     Inl (ImportError (''cannot import name '' @ repr_str ''PBKDF2'' @ '' from '' @
            repr_str ''cryptography.hazmat.primitives.kdf.pbkdf2'' @ '' ('' @ file @ '')''))"
  by (simp add: round_trip_def import_encryption_def import_from_def cryptography_release_def
      ebind_def)

section \<open>Properties of the store client and the handlers\<close>

lemmas store_defs =
  make_request_def send_def get_user_by_id_def get_user_by_broker_account_def update_user_def
  create_user_def create_position_def

lemmas handler_defs = require_metaapi_def with_client_def for_login_def utcnow_def



lemma lookup_found:
  assumes "env_http env (requests w) (user_lookup_request env broker_account server) =
      Inr (Some (PDict result))"
    and "map_of result ''documents'' = Some (PList (user # others))"
  shows "get_user_by_broker_account env broker_account server w =
    (Inr user, w\<lparr>requests := requests w @ [user_lookup_request env broker_account server]\<rparr>)"
proof -
  from assms(2) have "''documents'' \<in> fst ` set result"
    using dom_map_of_conv_image_fst [of result] by auto
  with assms show ?thesis
    by (simp add: store_defs prog_defs user_lookup_request_def Let_def getitem_def)
qed

lemma connect_broker_status:
  "http_status (fst (connect_broker env data w)) = 200 \<or>
   http_status (fst (connect_broker env data w)) = 500"
  by (auto simp: connect_broker_def prog_defs split: sum.splits prod.splits)

text \<open>
  Claim C5. With no trading backend configured, \<open>POST /api/users/connect\<close> answers
  500, not 503. The handler raises the 503 inside its \<open>try\<close> block, whose handler
  catches every exception and raises a 500 with the text of the caught one; the store
  is not called. This holds for every request and every environment. (Every failure
  of the handler is a 500, the connection failure of the claim among them.)
\<close>

theorem connect_broker_unconfigured:
  "init_metaapi_client Map.empty = None \<and>
   connect_broker env data \<lparr>metaapi_client = None, requests = history\<rparr> =
     (Inl (HTTPException 500 (''Connection failed: '' @
        str_exn (HTTPException 503 ''MetaAPI not configured. Set METAAPI_TOKEN environment variable.''))),
      \<lparr>metaapi_client = None, requests = history\<rparr>) \<and>
   http_status (fst (connect_broker env data \<lparr>metaapi_client = None, requests = history\<rparr>)) = 500"
  by (simp add: connect_broker_def init_metaapi_client_def handler_defs prog_defs)





lemma new_AccountInfoResponse_user_id:
  assumes "new_AccountInfoResponse p (PStr u) broker_account server balance equity margin free_margin currency = Inr r"
  shows "resp_user_id r = u"
  using assms
  by (auto simp: new_AccountInfoResponse_def str_value_def split: option.splits Option.bind_splits)








end
